theory Spec2Isabelle
  imports Main
begin

section \<open>Subaccount positions\<close>

text \<open>
  The \<open>Position\<close> type comes from the exchange SDK. Of its fields the integrity strategy
  reads \<open>marketId\<close> and \<open>updatedAt\<close> only; the others are carried along unchanged.
  \<open>updatedAt\<close> is a timestamp in milliseconds.
\<close>

record position =
  marketId :: string
  ticker :: string
  quantity :: string
  updatedAt :: int

text \<open>
  \<open>verifyData\<close> of \<open>DerivativeSubaccountPositionIntegrityStrategy\<close>:
  \<^verbatim>\<open>existingPositions.every((e) => latestPositions.find((l) =>
     e?.marketId === l?.marketId && e?.updatedAt === l?.updatedAt))\<close>
  \<open>Array.prototype.find\<close> returns the first matching element or \<open>undefined\<close>; \<open>every\<close>
  reads that result as a boolean, and a position object is truthy.
\<close>

definition verifyData :: "position list \<Rightarrow> position list \<Rightarrow> bool" where
  "verifyData existingPositions latestPositions =
     list_all (\<lambda>existingPosition.
        find (\<lambda>latestPosition.
                marketId existingPosition = marketId latestPosition \<and>
                updatedAt existingPosition = updatedAt latestPosition)
             latestPositions \<noteq> None)
       existingPositions"

section \<open>Subaccount balances\<close>

text \<open>
  \<open>SubaccountBalance\<close> as the consumer library returns it: a denomination and a deposit that
  may be missing. Amounts are decimal strings.
\<close>

record SubaccountDeposit =
  deposit_totalBalance :: string
  deposit_availableBalance :: string

record SubaccountBalance =
  balance_denom :: string
  balance_deposit :: "SubaccountDeposit option"

record UiSubaccountBalance =
  denom :: string
  totalBalance :: string
  availableBalance :: string

text \<open>
  The transformer \<open>grpcSubaccountBalanceToUiSubaccountBalance\<close>. The test \<open>balance.deposit ? _ : _\<close>
  is on an object or \<open>undefined\<close>, so it is the case distinction on the option.
\<close>

definition grpcSubaccountBalanceToUiSubaccountBalance :: "SubaccountBalance \<Rightarrow> UiSubaccountBalance" where
  "grpcSubaccountBalanceToUiSubaccountBalance balance =
     \<lparr>denom = balance_denom balance,
      totalBalance = (case balance_deposit balance of
                        Some d \<Rightarrow> deposit_totalBalance d | None \<Rightarrow> ''0''),
      availableBalance = (case balance_deposit balance of
                        Some d \<Rightarrow> deposit_availableBalance d | None \<Rightarrow> ''0'')\<rparr>"

text \<open>
  The record built for each balance inside \<open>fetchSubaccount\<close> (\<open>app/services/account.ts\<close>): the
  transformer's three fields and a \<open>token\<close>. \<open>peggyDenomToTokenFromContractAddress\<close> is
  imported from elsewhere and is a parameter here.
\<close>

record 'token UiSubaccountBalanceWithToken = UiSubaccountBalance +
  token :: 'token

definition fetchSubaccount_balance ::
  "(string \<Rightarrow> 'token) \<Rightarrow> SubaccountBalance \<Rightarrow> 'token UiSubaccountBalanceWithToken" where
  "fetchSubaccount_balance peggyDenomToTokenFromContractAddress balance =
     \<lparr>denom = balance_denom balance,
      totalBalance = (case balance_deposit balance of
                        Some d \<Rightarrow> deposit_availableBalance d | None \<Rightarrow> ''0''),
      availableBalance = (case balance_deposit balance of
                        Some d \<Rightarrow> deposit_totalBalance d | None \<Rightarrow> ''0''),
      token = peggyDenomToTokenFromContractAddress (balance_denom balance)\<rparr>"

record 'token UiSubaccount =
  ui_subaccountId :: string
  balances :: "'token UiSubaccountBalanceWithToken list"

text \<open>
  \<open>fetchSubaccount\<close>. The balances the consumer fetched for the subaccount, already passed
  through \<open>SubaccountTransformer.grpcBalancesToBalances\<close>, are the argument \<open>fetched\<close>.
\<close>

definition fetchSubaccount ::
  "(string \<Rightarrow> 'token) \<Rightarrow> (string \<Rightarrow> SubaccountBalance list) \<Rightarrow> string \<Rightarrow> 'token UiSubaccount" where
  "fetchSubaccount peggyDenomToTokenFromContractAddress fetched subaccountId' =
     \<lparr>ui_subaccountId = subaccountId',
      balances = map (fetchSubaccount_balance peggyDenomToTokenFromContractAddress)
                     (fetched subaccountId')\<rparr>"

section \<open>The app store\<close>

text \<open>
  \<open>AppStoreState\<close> and \<open>UserBasedState\<close>. The string enums (\<open>NoticeBanner\<close>, \<open>Modal\<close>,
  \<open>TradingLayout\<close>, \<open>OrderbookLayout\<close>, \<open>ChainId\<close>) are their string values, the locale is
  its name, \<open>devMode\<close> is \<open>boolean | undefined\<close>.
\<close>

record GeoLocation =
  continent :: string
  country :: string
  browserCountry :: string
  vpnCheckTimestamp :: int

record Preferences =
  isHideBalances :: bool
  authZManagement :: bool
  thousandsSeparator :: bool
  tradingLayout :: string
  subaccountManagement :: bool
  orderbookLayout :: string
  skipTradeConfirmationModal :: bool
  skipExperimentalConfirmationModal :: bool
  showGridTradingSubaccounts :: bool

record UserBasedState =
  favoriteMarkets :: "string list"
  bannersViewed :: "string list"
  modalsViewed :: "string list"
  geoLocation :: GeoLocation
  preferences :: Preferences

record AppStoreState =
  blockHeight :: int
  app_locale :: string
  chainId :: string
  gasPrice :: string
  ethereumChainId :: int
  marketsOpen :: bool
  devMode :: "bool option"
  userState :: UserBasedState

text \<open>
  \<open>toggleFavoriteMarket\<close>. \<open>$patch\<close> is given a copy of \<open>userState\<close> with the new
  \<open>favoriteMarkets\<close> array; the store keeps every other key.
\<close>

definition toggleFavoriteMarket :: "string \<Rightarrow> AppStoreState \<Rightarrow> AppStoreState" where
  "toggleFavoriteMarket marketId' appStore =
     (let cachedFavoriteMarkets = favoriteMarkets (userState appStore);
          favoriteMarkets' =
            (if marketId' \<in> set cachedFavoriteMarkets
             then filter (\<lambda>m. m \<noteq> marketId') cachedFavoriteMarkets
             else marketId' # cachedFavoriteMarkets)
      in appStore\<lparr>userState := (userState appStore)\<lparr>favoriteMarkets := favoriteMarkets'\<rparr>\<rparr>)"

section \<open>The stream manager\<close>

text \<open>
  The stream kinds named in the sources: the four \<open>SpotMarketStreamType\<close> values and
  \<open>SubaccountStreamType.Balances\<close> used by \<open>cancelMarketStreams\<close>, and the kind of the
  subaccount positions stream that the position store owns.
\<close>

datatype stream_kind =
  Orderbook | SubaccountOrders | SubaccountTrades | Trades | Balances | SubaccountPositions

text \<open>
  A stream handle is an opaque subscription token with its kind; the scope it was opened
  for (a market, or none) is kept with it.
\<close>

record stream_handle =
  subscription :: nat
  kind :: stream_kind
  scope :: "string option"

text \<open>
  The manager's registry maps a kind to the handle registered under it. \<open>cancelled\<close> lists
  the handles whose \<open>cancel\<close> has been called, oldest first.
\<close>

record stream_manager =
  registry :: "stream_kind \<rightharpoonup> stream_handle"
  cancelled :: "stream_handle list"

text \<open>
  Modelled from the spec: the \<open>StreamManager\<close> singleton (\<open>app/singletons/StreamManager\<close>),
  of which the sources hold only the calls. \<open>set(handle, kind)\<close> "registers a handle under
  kind, implicitly superseding (without auto-cancelling) any prior handle for that kind".
\<close>

definition set_stream :: "stream_handle \<Rightarrow> stream_kind \<Rightarrow> stream_manager \<Rightarrow> stream_manager" where
  "set_stream handle k m = m\<lparr>registry := (registry m)(k \<mapsto> handle)\<rparr>"

text \<open>
  Modelled from the spec: \<open>cancelIfExists(kind)\<close> of the same \<open>StreamManager\<close>: it "cancels
  and deregisters the handle for kind if present; no-op (not an error) if absent".
\<close>

definition cancelIfExists :: "stream_kind \<Rightarrow> stream_manager \<Rightarrow> stream_manager" where
  "cancelIfExists k m =
     (case registry m k of
        None \<Rightarrow> m
      | Some handle \<Rightarrow> m\<lparr>registry := (registry m)(k := None),
                         cancelled := cancelled m @ [handle]\<rparr>)"

text \<open>\<open>cancelMarketStreams\<close> of the spot service: five calls in this order.\<close>

definition cancelMarketStreams :: "stream_manager \<Rightarrow> stream_manager" where
  "cancelMarketStreams streamManager' =
     cancelIfExists Balances
       (cancelIfExists Trades
         (cancelIfExists SubaccountTrades
           (cancelIfExists SubaccountOrders
             (cancelIfExists Orderbook streamManager'))))"

section \<open>The positions integrity strategy\<close>

text \<open>
  The stores \<open>validate\<close> and \<open>fetchData\<close> reach for: the wallet store's \<open>isUserConnected\<close>,
  the account store's \<open>subaccountId\<close> (unset is the empty string, the one falsy string),
  the derivative store's \<open>activeMarketIds\<close>, the position store's \<open>subaccountPositions\<close>
  (\<open>None\<close> is \<open>undefined\<close>, which \<open>$patch\<close> stores when it is handed \<open>undefined\<close>), the
  stream manager, the number of streams opened so far, and the requests sent to the
  indexer so far, oldest first.
\<close>

record fetch_request =
  req_subaccountId :: string
  req_marketIds :: "string list"

record stores =
  isUserConnected :: bool
  subaccountId :: string
  activeMarketIds :: "string list"
  subaccountPositions :: "position list option"
  streamManager :: stream_manager
  opened :: nat
  fetches :: "fetch_request list"

text \<open>
  What a run can end with: \<open>validate\<close> returns, or its promise is rejected. A rejection
  is a failed \<open>fetchPositions\<close> call, or the \<open>TypeError\<close> of spreading \<open>undefined\<close>.
\<close>

datatype error = FetchFailed | NotIterable

datatype outcome = Returned | Rejected error

text \<open>
  The indexer is outside the program. Its answer to the \<open>n\<close>-th request of a run may
  depend on \<open>n\<close> as well as on the request: the data it serves changes over time. An
  answer is a rejection or the \<open>positions\<close> member of the response, which \<open>validate\<close>
  tests for being absent.
\<close>

type_synonym indexer = "nat \<Rightarrow> fetch_request \<Rightarrow> error + position list option"

text \<open>\<open>MarketIdsArgs\<close>, the strategy's \<open>args\<close>: an array of market ids, or \<open>undefined\<close>.\<close>

type_synonym MarketIdsArgs = "string list option"

text \<open>
  The request \<open>fetchData\<close> builds. \<open>marketIds || activeMarketIds\<close> falls back to the
  active markets only for \<open>undefined\<close>: an empty array is truthy.
\<close>

definition fetchData_request :: "MarketIdsArgs \<Rightarrow> stores \<Rightarrow> fetch_request" where
  "fetchData_request marketIds s =
     \<lparr>req_subaccountId = subaccountId s,
      req_marketIds = (case marketIds of Some ids \<Rightarrow> ids | None \<Rightarrow> activeMarketIds s)\<rparr>"

definition fetchData ::
  "indexer \<Rightarrow> MarketIdsArgs \<Rightarrow> stores \<Rightarrow> (error + position list option) \<times> stores" where
  "fetchData indexerDerivativesApi marketIds s =
     (let request = fetchData_request marketIds s
      in (indexerDerivativesApi (length (fetches s)) request,
          s\<lparr>fetches := fetches s @ [request]\<rparr>))"

text \<open>
  Modelled from the spec: the position store's \<open>cancelSubaccountPositionsStream\<close>
  (\<open>store/position\<close>, not among the sources), which is to "cancel the current stream for
  this entity kind".
\<close>

definition cancelSubaccountPositionsStream :: "stores \<Rightarrow> stores" where
  "cancelSubaccountPositionsStream s =
     s\<lparr>streamManager := cancelIfExists SubaccountPositions (streamManager s)\<rparr>"

text \<open>
  Modelled from the spec: the position store's \<open>streamSubaccountPositions(marketId)\<close>
  (\<open>store/position\<close>, not among the sources), which is to "re-open a stream scoped to"
  the market given, if any: the streaming interface's \<open>open(scope, callback) -> handle\<close>
  followed by the manager's \<open>set(handle, kind)\<close>.
\<close>

definition streamSubaccountPositions :: "string option \<Rightarrow> stores \<Rightarrow> stores" where
  "streamSubaccountPositions marketId' s =
     (let handle = \<lparr>subscription = opened s, kind = SubaccountPositions, scope = marketId'\<rparr>
      in s\<lparr>streamManager := set_stream handle SubaccountPositions (streamManager s),
           opened := Suc (opened s)\<rparr>)"

text \<open>\<open>const [marketId] = marketIds || []\<close>: the first market id, or \<open>undefined\<close>.\<close>

definition firstMarketId :: "MarketIdsArgs \<Rightarrow> string option" where
  "firstMarketId marketIds =
     (case marketIds of None \<Rightarrow> None | Some [] \<Rightarrow> None | Some (marketId' # _) \<Rightarrow> Some marketId')"

text \<open>
  \<open>validate\<close>, statement by statement. The argument of \<open>$patch\<close> awaits a second
  \<open>fetchData\<close> after the stream has been cancelled; when that call is rejected, neither
  \<open>$patch\<close> nor \<open>streamSubaccountPositions\<close> runs. The run is modelled without other
  tasks interleaving at its two suspension points.
\<close>

definition validate :: "indexer \<Rightarrow> MarketIdsArgs \<Rightarrow> stores \<Rightarrow> outcome \<times> stores" where
  "validate indexerDerivativesApi marketIds s =
     (if \<not> isUserConnected s \<or> subaccountId s = [] then (Returned, s)
      else
        case fetchData indexerDerivativesApi marketIds s of
          (Inl e, s1) \<Rightarrow> (Rejected e, s1)
        | (Inr None, s1) \<Rightarrow> (Returned, s1)
        | (Inr (Some latestPositions), s1) \<Rightarrow>
            if latestPositions = [] then (Returned, s1)
            else
              case subaccountPositions s1 of
                None \<Rightarrow> (Rejected NotIterable, s1)
              | Some existingPositions \<Rightarrow>
                  if verifyData existingPositions latestPositions then (Returned, s1)
                  else
                    case fetchData indexerDerivativesApi marketIds
                           (cancelSubaccountPositionsStream s1) of
                      (Inl e, s2) \<Rightarrow> (Rejected e, s2)
                    | (Inr refetched, s2) \<Rightarrow>
                        (Returned,
                         streamSubaccountPositions (firstMarketId marketIds)
                           (s2\<lparr>subaccountPositions := refetched\<rparr>)))"

section \<open>Example runs\<close>

text \<open>Concrete stores, positions and indexers on which the theorems below are run.\<close>

definition example_position :: "string \<Rightarrow> int \<Rightarrow> position" where
  "example_position m t = \<lparr>marketId = m, ticker = m @ ''/USDT PERP'', quantity = ''1'', updatedAt = t\<rparr>"

text \<open>
  A connected wallet with a subaccount, a cache, and one live positions stream on
  market \<open>A\<close>; nothing fetched yet.
\<close>

definition example_stores :: "position list \<Rightarrow> stores" where
  "example_stores cached =
     \<lparr>isUserConnected = True,
      subaccountId = ''0xabc'',
      activeMarketIds = [''A'', ''B''],
      subaccountPositions = Some cached,
      streamManager =
        \<lparr>registry = [SubaccountPositions \<mapsto>
                       \<lparr>subscription = 0, kind = SubaccountPositions, scope = Some ''A''\<rparr>],
         cancelled = []\<rparr>,
      opened = 1,
      fetches = []\<rparr>"

text \<open>
  An indexer that answers the \<open>n\<close>-th request with one position per requested market,
  all updated at \<open>start + step * n\<close>: with \<open>step = 0\<close> its data stands still, otherwise
  it moves on between two requests.
\<close>

definition example_indexer :: "int \<Rightarrow> int \<Rightarrow> indexer" where
  "example_indexer start step n request =
     Inr (Some (map (\<lambda>m. example_position m (start + step * int n)) (req_marketIds request)))"

text \<open>An indexer whose responses carry no \<open>positions\<close> member.\<close>

definition absent_indexer :: indexer where
  "absent_indexer n request = Inr None"

text \<open>The app store's initial state, with the favourites given.\<close>

definition example_app_store :: "string list \<Rightarrow> AppStoreState" where
  "example_app_store favorites =
     \<lparr>blockHeight = 0,
      app_locale = ''en'',
      chainId = ''injective-1'',
      gasPrice = ''160000000'',
      ethereumChainId = 1,
      marketsOpen = False,
      devMode = None,
      userState =
        \<lparr>favoriteMarkets = favorites,
         bannersViewed = [],
         modalsViewed = [],
         geoLocation = \<lparr>continent = [], country = [], browserCountry = [], vpnCheckTimestamp = 0\<rparr>,
         preferences =
           \<lparr>isHideBalances = False, authZManagement = False, thousandsSeparator = True,
            tradingLayout = ''left'', subaccountManagement = False, orderbookLayout = ''default'',
            skipTradeConfirmationModal = False, skipExperimentalConfirmationModal = False,
            showGridTradingSubaccounts = False\<rparr>\<rparr>\<rparr>"

section \<open>Properties of verifyData\<close>

lemma find_not_None_iff: "find P xs \<noteq> None \<longleftrightarrow> (\<exists>x \<in> set xs. P x)"
  by (induction xs) auto

text \<open>
  C1. \<open>verifyData C F\<close> is true exactly when every element of the cached sequence \<open>C\<close>
  has an element of the fresh sequence \<open>F\<close> with the same \<open>marketId\<close> and the same
  \<open>updatedAt\<close>. In particular it is true for the empty cached sequence, whatever \<open>F\<close> is,
  and false as soon as one cached element has no such partner in \<open>F\<close>.
\<close>

theorem verifyData_iff_all_matched:
  "(verifyData C F \<longleftrightarrow>
      (\<forall>c \<in> set C. \<exists>f \<in> set F. marketId f = marketId c \<and> updatedAt f = updatedAt c))
   \<and> verifyData [] F
   \<and> ((\<exists>c \<in> set C. \<forall>f \<in> set F. \<not> (marketId f = marketId c \<and> updatedAt f = updatedAt c))
        \<longrightarrow> \<not> verifyData C F)"
proof -
  have iff: "verifyData C F \<longleftrightarrow>
      (\<forall>c \<in> set C. \<exists>f \<in> set F. marketId f = marketId c \<and> updatedAt f = updatedAt c)"
    unfolding verifyData_def list_all_iff find_not_None_iff by (metis (lifting))
  have nil: "verifyData [] F"
    by (simp add: verifyData_def)
  from iff nil show ?thesis by blast
qed

theorem verifyData_iff_all_matched_witness:
  "verifyData
     [\<lparr>marketId = ''A'', ticker = ''A/USDT PERP'', quantity = ''1'', updatedAt = 100\<rparr>]
     [\<lparr>marketId = ''B'', ticker = ''B/USDT PERP'', quantity = ''3'', updatedAt = 100\<rparr>,
      \<lparr>marketId = ''A'', ticker = ''A/USDT PERP'', quantity = ''2'', updatedAt = 100\<rparr>]
   \<and> \<not> verifyData
     [\<lparr>marketId = ''A'', ticker = ''A/USDT PERP'', quantity = ''1'', updatedAt = 100\<rparr>]
     [\<lparr>marketId = ''A'', ticker = ''A/USDT PERP'', quantity = ''1'', updatedAt = 200\<rparr>]"
  using verifyData_iff_all_matched
    [of "[\<lparr>marketId = ''A'', ticker = ''A/USDT PERP'', quantity = ''1'', updatedAt = 100\<rparr>]"
        "[\<lparr>marketId = ''B'', ticker = ''B/USDT PERP'', quantity = ''3'', updatedAt = 100\<rparr>,
          \<lparr>marketId = ''A'', ticker = ''A/USDT PERP'', quantity = ''2'', updatedAt = 100\<rparr>]"]
    verifyData_iff_all_matched
    [of "[\<lparr>marketId = ''A'', ticker = ''A/USDT PERP'', quantity = ''1'', updatedAt = 100\<rparr>]"
        "[\<lparr>marketId = ''A'', ticker = ''A/USDT PERP'', quantity = ''1'', updatedAt = 200\<rparr>]"]
  by simp

section \<open>Properties of the stream manager\<close>

lemma cancelIfExists_absent: "registry m k = None \<Longrightarrow> cancelIfExists k m = m"
  by (simp add: cancelIfExists_def)

lemma cancelIfExists_registry: "registry (cancelIfExists k m) = (registry m)(k := None)"
  by (auto simp: cancelIfExists_def split: option.splits)

lemma cancelIfExists_cancelled:
  "cancelled (cancelIfExists k m) =
     cancelled m @ (case registry m k of None \<Rightarrow> [] | Some h \<Rightarrow> [h])"
  by (simp add: cancelIfExists_def split: option.splits)

lemma cancelIfExists_idem: "cancelIfExists k (cancelIfExists k m) = cancelIfExists k m"
  by (rule cancelIfExists_absent) (simp add: cancelIfExists_registry)

text \<open>
  C7. For every stream kind \<open>k\<close>: the first \<open>cancelIfExists k\<close> cancels the handle
  registered under \<open>k\<close>, if there is one, and takes it out of the registry, leaving the
  other kinds alone; with no handle under \<open>k\<close> the call changes nothing; hence a second
  call in succession changes nothing and cancels nothing. The function has no failing
  branch: it always returns a manager.
\<close>

theorem cancelIfExists_twice:
  "(registry m k = Some h \<longrightarrow>
      registry (cancelIfExists k m) k = None \<and>
      cancelled (cancelIfExists k m) = cancelled m @ [h])
   \<and> (\<forall>k'. k' \<noteq> k \<longrightarrow> registry (cancelIfExists k m) k' = registry m k')
   \<and> (registry m k = None \<longrightarrow> cancelIfExists k m = m)
   \<and> cancelIfExists k (cancelIfExists k m) = cancelIfExists k m"
  by (simp add: cancelIfExists_absent cancelIfExists_registry cancelIfExists_cancelled
      cancelIfExists_idem)

theorem cancelIfExists_twice_witness:
  "registry (streamManager (example_stores [])) SubaccountPositions =
     Some \<lparr>subscription = 0, kind = SubaccountPositions, scope = Some ''A''\<rparr>
   \<and> registry (cancelIfExists SubaccountPositions (streamManager (example_stores [])))
        SubaccountPositions = None
   \<and> cancelled (cancelIfExists SubaccountPositions (streamManager (example_stores []))) =
        [\<lparr>subscription = 0, kind = SubaccountPositions, scope = Some ''A''\<rparr>]
   \<and> registry (streamManager (example_stores [])) Trades = None
   \<and> cancelIfExists Trades (streamManager (example_stores [])) = streamManager (example_stores [])
   \<and> cancelIfExists SubaccountPositions
        (cancelIfExists SubaccountPositions (streamManager (example_stores []))) =
      cancelIfExists SubaccountPositions (streamManager (example_stores []))"
  using cancelIfExists_twice
      [of "streamManager (example_stores [])" SubaccountPositions
          "\<lparr>subscription = 0, kind = SubaccountPositions, scope = Some ''A''\<rparr>"]
    cancelIfExists_twice
      [of "streamManager (example_stores [])" Trades
          "\<lparr>subscription = 0, kind = SubaccountPositions, scope = Some ''A''\<rparr>"]
  by (simp add: example_stores_def)

text \<open>
  \<open>cancelMarketStreams\<close> leaves none of its five kinds registered, so running it again
  changes nothing.
\<close>

lemma cancelMarketStreams_registry:
  "registry (cancelMarketStreams m) =
     (registry m)(Orderbook := None, SubaccountOrders := None, SubaccountTrades := None,
                  Trades := None, Balances := None)"
  by (simp add: cancelMarketStreams_def cancelIfExists_registry)

lemma cancelMarketStreams_idem: "cancelMarketStreams (cancelMarketStreams m) = cancelMarketStreams m"
proof -
  let ?m = "cancelMarketStreams m"
  have 1: "cancelIfExists Orderbook ?m = ?m"
    by (rule cancelIfExists_absent) (simp add: cancelMarketStreams_registry)
  have 2: "cancelIfExists SubaccountOrders ?m = ?m"
    by (rule cancelIfExists_absent) (simp add: cancelMarketStreams_registry)
  have 3: "cancelIfExists SubaccountTrades ?m = ?m"
    by (rule cancelIfExists_absent) (simp add: cancelMarketStreams_registry)
  have 4: "cancelIfExists Trades ?m = ?m"
    by (rule cancelIfExists_absent) (simp add: cancelMarketStreams_registry)
  have 5: "cancelIfExists Balances ?m = ?m"
    by (rule cancelIfExists_absent) (simp add: cancelMarketStreams_registry)
  have "cancelMarketStreams ?m =
          cancelIfExists Balances (cancelIfExists Trades (cancelIfExists SubaccountTrades
            (cancelIfExists SubaccountOrders (cancelIfExists Orderbook ?m))))"
    by (rule cancelMarketStreams_def)
  also have "\<dots> = ?m"
    by (simp only: 1 2 3 4 5)
  finally show ?thesis .
qed

section \<open>Properties of validate\<close>

lemma fetchData_request_frame:
  "fetchData_request marketIds (s\<lparr>fetches := f\<rparr>) = fetchData_request marketIds s"
  "fetchData_request marketIds (s\<lparr>streamManager := sm\<rparr>) = fetchData_request marketIds s"
  by (simp_all add: fetchData_request_def split: option.splits)

lemma fetchData_eq:
  "fetchData indexerApi marketIds s =
     (indexerApi (length (fetches s)) (fetchData_request marketIds s),
      s\<lparr>fetches := fetches s @ [fetchData_request marketIds s]\<rparr>)"
  by (simp add: fetchData_def Let_def)

lemma example_request:
  "fetchData_request (Some ids) (example_stores cached) =
     \<lparr>req_subaccountId = ''0xabc'', req_marketIds = ids\<rparr>"
  by (simp add: fetchData_request_def example_stores_def)

lemma example_stores_sel:
  "isUserConnected (example_stores cached)"
  "subaccountId (example_stores cached) = ''0xabc''"
  "subaccountPositions (example_stores cached) = Some cached"
  "fetches (example_stores cached) = []"
  "opened (example_stores cached) = 1"
  by (simp_all add: example_stores_def)

text \<open>
  C5. When the wallet is not connected or no subaccount is set, \<open>validate\<close> returns at
  once and leaves every store as it was: no request is sent to the indexer, the cache
  and the stream manager are untouched.
\<close>

theorem validate_disconnected:
  "\<not> isUserConnected s \<or> subaccountId s = [] \<Longrightarrow>
     validate indexerApi marketIds s = (Returned, s)"
  by (simp add: validate_def)

theorem validate_disconnected_witness:
  "subaccountId ((example_stores [example_position ''A'' 100])\<lparr>subaccountId := []\<rparr>) = []
   \<and> validate (example_indexer 200 0) (Some [''A''])
        ((example_stores [example_position ''A'' 100])\<lparr>subaccountId := []\<rparr>) =
      (Returned, (example_stores [example_position ''A'' 100])\<lparr>subaccountId := []\<rparr>)
   \<and> \<not> isUserConnected ((example_stores [example_position ''A'' 100])\<lparr>isUserConnected := False\<rparr>)
   \<and> validate (example_indexer 200 0) (Some [''A''])
        ((example_stores [example_position ''A'' 100])\<lparr>isUserConnected := False\<rparr>) =
      (Returned, (example_stores [example_position ''A'' 100])\<lparr>isUserConnected := False\<rparr>)"
  using validate_disconnected
      [of "(example_stores [example_position ''A'' 100])\<lparr>subaccountId := []\<rparr>"
          "example_indexer 200 0" "Some [''A'']"]
    validate_disconnected
      [of "(example_stores [example_position ''A'' 100])\<lparr>isUserConnected := False\<rparr>"
          "example_indexer 200 0" "Some [''A'']"]
  by simp

text \<open>
  C3. In a run where the cached snapshot verifies against the fetched one, \<open>validate\<close>
  returns with the stores as they were, apart from the one request it sent being
  recorded: the cached positions are unchanged, no stream is cancelled and none is
  opened.
\<close>

theorem validate_valid_no_mutation:
  assumes "isUserConnected s" and "subaccountId s \<noteq> []"
    and "indexerApi (length (fetches s)) (fetchData_request marketIds s) = Inr (Some fresh)"
    and "subaccountPositions s = Some cached"
    and "verifyData cached fresh"
  shows "validate indexerApi marketIds s =
           (Returned, s\<lparr>fetches := fetches s @ [fetchData_request marketIds s]\<rparr>)"
  using assms by (simp add: validate_def fetchData_eq)

theorem validate_valid_no_mutation_witness:
  "isUserConnected (example_stores [example_position ''A'' 100])
   \<and> subaccountId (example_stores [example_position ''A'' 100]) \<noteq> []
   \<and> example_indexer 100 0 (length (fetches (example_stores [example_position ''A'' 100])))
        (fetchData_request (Some [''A'']) (example_stores [example_position ''A'' 100])) =
      Inr (Some [example_position ''A'' 100])
   \<and> subaccountPositions (example_stores [example_position ''A'' 100]) =
      Some [example_position ''A'' 100]
   \<and> verifyData [example_position ''A'' 100] [example_position ''A'' 100]
   \<and> validate (example_indexer 100 0) (Some [''A''])
        (example_stores [example_position ''A'' 100]) =
      (Returned,
       (example_stores [example_position ''A'' 100])
         \<lparr>fetches := [\<lparr>req_subaccountId = ''0xabc'', req_marketIds = [''A'']\<rparr>]\<rparr>)"
  using validate_valid_no_mutation
      [of "example_stores [example_position ''A'' 100]" "example_indexer 100 0"
          "Some [''A'']" "[example_position ''A'' 100]" "[example_position ''A'' 100]"]
  by (simp add: example_stores_sel example_request example_indexer_def verifyData_def)

text \<open>
  C4. Whatever the cache holds, when the fetch comes back empty or without a
  \<open>positions\<close> sequence, \<open>validate\<close> returns without a resync: the stores are as they
  were apart from the record of the one request sent, so the cache is unchanged and no
  stream is cancelled or opened.
\<close>

theorem validate_empty_fetch:
  assumes "isUserConnected s" and "subaccountId s \<noteq> []"
    and "indexerApi (length (fetches s)) (fetchData_request marketIds s) = Inr None
       \<or> indexerApi (length (fetches s)) (fetchData_request marketIds s) = Inr (Some [])"
  shows "validate indexerApi marketIds s =
           (Returned, s\<lparr>fetches := fetches s @ [fetchData_request marketIds s]\<rparr>)"
  using assms by (auto simp: validate_def fetchData_eq)

theorem validate_empty_fetch_witness:
  "isUserConnected (example_stores [example_position ''A'' 100])
   \<and> subaccountId (example_stores [example_position ''A'' 100]) \<noteq> []
   \<and> example_indexer 200 0 (length (fetches (example_stores [example_position ''A'' 100])))
        (fetchData_request (Some []) (example_stores [example_position ''A'' 100])) =
      Inr (Some [])
   \<and> validate (example_indexer 200 0) (Some [])
        (example_stores [example_position ''A'' 100]) =
      (Returned,
       (example_stores [example_position ''A'' 100])
         \<lparr>fetches := [\<lparr>req_subaccountId = ''0xabc'', req_marketIds = []\<rparr>]\<rparr>)
   \<and> validate absent_indexer (Some [''A''])
        (example_stores [example_position ''A'' 100]) =
      (Returned,
       (example_stores [example_position ''A'' 100])
         \<lparr>fetches := [\<lparr>req_subaccountId = ''0xabc'', req_marketIds = [''A'']\<rparr>]\<rparr>)"
  using validate_empty_fetch
      [of "example_stores [example_position ''A'' 100]" "example_indexer 200 0" "Some []"]
    validate_empty_fetch
      [of "example_stores [example_position ''A'' 100]" absent_indexer "Some [''A'']"]
  by (simp add: example_stores_sel example_request example_indexer_def absent_indexer_def)

text \<open>
  C6, as the spec states it, fails: \<open>validate\<close> has no test for an empty cache. With an
  empty cache, a connected wallet and a subaccount it sends its request to the indexer
  all the same.
\<close>

theorem validate_empty_cache_counterexample:
  "subaccountPositions (example_stores []) = Some []
   \<and> fetches (example_stores []) = []
   \<and> fetches (snd (validate (example_indexer 100 0) (Some [''A'']) (example_stores []))) =
       [\<lparr>req_subaccountId = ''0xabc'', req_marketIds = [''A'']\<rparr>]
   \<and> snd (validate (example_indexer 100 0) (Some [''A'']) (example_stores [])) \<noteq>
       example_stores []"
proof -
  have run: "validate (example_indexer 100 0) (Some [''A'']) (example_stores []) =
      (Returned,
       (example_stores [])\<lparr>fetches := [\<lparr>req_subaccountId = ''0xabc'', req_marketIds = [''A'']\<rparr>]\<rparr>)"
    by (simp add: validate_def fetchData_eq example_stores_sel example_request
        example_indexer_def verifyData_def)
  have "fetches (snd (validate (example_indexer 100 0) (Some [''A'']) (example_stores []))) \<noteq>
        fetches (example_stores [])"
    by (simp add: run example_stores_sel)
  then have "snd (validate (example_indexer 100 0) (Some [''A'']) (example_stores [])) \<noteq>
        example_stores []"
    by metis
  then show ?thesis
    by (simp add: run example_stores_sel)
qed

text \<open>
  C6, amended. With an empty cache \<open>validate\<close> changes neither the cache nor the streams,
  whatever the indexer answers; but it does not skip the fetch: when the wallet is
  connected and a subaccount is set it sends one request, and none otherwise.
\<close>

theorem validate_empty_cache:
  assumes "subaccountPositions s = Some []"
  shows "snd (validate indexerApi marketIds s) =
           s\<lparr>fetches := (if isUserConnected s \<and> subaccountId s \<noteq> []
                          then fetches s @ [fetchData_request marketIds s] else fetches s)\<rparr>"
  using assms
  by (auto simp: validate_def fetchData_eq verifyData_def split: sum.splits option.splits)

theorem validate_empty_cache_witness:
  "subaccountPositions (example_stores []) = Some []
   \<and> snd (validate (example_indexer 100 0) (Some [''A'']) (example_stores [])) =
       (example_stores [])\<lparr>fetches := [\<lparr>req_subaccountId = ''0xabc'', req_marketIds = [''A'']\<rparr>]\<rparr>"
  using validate_empty_cache [of "example_stores []" "example_indexer 100 0" "Some [''A'']"]
  by (simp add: example_stores_sel example_request)

lemma resync_run:
  assumes "isUserConnected s" and "subaccountId s \<noteq> []"
    and "indexerApi (length (fetches s)) (fetchData_request marketIds s) = Inr (Some fresh)"
    and "fresh \<noteq> []"
    and "subaccountPositions s = Some cached"
    and "\<not> verifyData cached fresh"
    and "indexerApi (Suc (length (fetches s))) (fetchData_request marketIds s) = Inr refetched"
  shows "validate indexerApi marketIds s =
     (Returned,
      s\<lparr>subaccountPositions := refetched,
        streamManager :=
          set_stream \<lparr>subscription = opened s, kind = SubaccountPositions, scope = firstMarketId marketIds\<rparr>
            SubaccountPositions (cancelIfExists SubaccountPositions (streamManager s)),
        opened := Suc (opened s),
        fetches := fetches s @ [fetchData_request marketIds s, fetchData_request marketIds s]\<rparr>)"
  using assms
  by (simp add: validate_def fetchData_eq fetchData_request_frame
      cancelSubaccountPositionsStream_def streamSubaccountPositions_def Let_def)

text \<open>
  When the second fetch is rejected the run ends there: the stream has been cancelled,
  the cache still holds the stale snapshot and no stream has been opened.
\<close>

lemma resync_refetch_rejected:
  assumes "isUserConnected s" and "subaccountId s \<noteq> []"
    and "indexerApi (length (fetches s)) (fetchData_request marketIds s) = Inr (Some fresh)"
    and "fresh \<noteq> []"
    and "subaccountPositions s = Some cached"
    and "\<not> verifyData cached fresh"
    and "indexerApi (Suc (length (fetches s))) (fetchData_request marketIds s) = Inl e"
  shows "validate indexerApi marketIds s =
     (Rejected e,
      s\<lparr>streamManager := cancelIfExists SubaccountPositions (streamManager s),
        fetches := fetches s @ [fetchData_request marketIds s, fetchData_request marketIds s]\<rparr>)"
  using assms
  by (simp add: validate_def fetchData_eq fetchData_request_frame
      cancelSubaccountPositionsStream_def)

text \<open>
  C2, as the spec states it, fails: the snapshot written to the cache is not the one
  that was verified. \<open>validate\<close> fetches a second time inside the \<open>$patch\<close> argument, and
  the indexer may have moved on. Here the first fetch has market \<open>A\<close> updated at 200,
  the cache (updated at 100) does not verify, and the cache ends up with the second
  answer, updated at 300.
\<close>

theorem validate_resync_counterexample:
  "isUserConnected (example_stores [example_position ''A'' 100])
   \<and> subaccountId (example_stores [example_position ''A'' 100]) \<noteq> []
   \<and> fst (fetchData (example_indexer 200 100) (Some [''A''])
            (example_stores [example_position ''A'' 100])) =
       Inr (Some [example_position ''A'' 200])
   \<and> \<not> verifyData [example_position ''A'' 100] [example_position ''A'' 200]
   \<and> subaccountPositions
        (snd (validate (example_indexer 200 100) (Some [''A''])
               (example_stores [example_position ''A'' 100]))) =
       Some [example_position ''A'' 300]
   \<and> subaccountPositions
        (snd (validate (example_indexer 200 100) (Some [''A''])
               (example_stores [example_position ''A'' 100]))) \<noteq>
       Some [example_position ''A'' 200]"
  by (simp add: validate_def fetchData_eq fetchData_request_frame example_stores_sel
      example_request example_indexer_def verifyData_def example_position_def
      cancelSubaccountPositionsStream_def streamSubaccountPositions_def)

text \<open>
  C2, amended. In a run where the wallet is connected, a subaccount is set, the fetched
  snapshot is not empty and the cache does not verify against it, \<open>validate\<close> cancels the
  positions stream registered with the manager (if any) and fetches again with the same
  request. When that second fetch succeeds, \<open>validate\<close> returns, the cache holds the
  second answer (the verified snapshot only if the indexer gave it again), and the
  manager has under the positions kind a newly opened stream, scoped to the first
  element of \<open>marketIds\<close> if there is one and unscoped otherwise. Other kinds of stream
  and the other stores are untouched; two requests have been sent.
\<close>

theorem validate_resync:
  assumes "isUserConnected s" and "subaccountId s \<noteq> []"
    and "indexerApi (length (fetches s)) (fetchData_request marketIds s) = Inr (Some fresh)"
    and "fresh \<noteq> []"
    and "subaccountPositions s = Some cached"
    and "\<not> verifyData cached fresh"
    and "indexerApi (Suc (length (fetches s))) (fetchData_request marketIds s) = Inr refetched"
  shows "fst (validate indexerApi marketIds s) = Returned
    \<and> subaccountPositions (snd (validate indexerApi marketIds s)) = refetched
    \<and> (refetched = Some fresh \<longrightarrow>
         subaccountPositions (snd (validate indexerApi marketIds s)) = Some fresh)
    \<and> cancelled (streamManager (snd (validate indexerApi marketIds s))) =
        cancelled (streamManager s) @
          (case registry (streamManager s) SubaccountPositions of None \<Rightarrow> [] | Some h \<Rightarrow> [h])
    \<and> registry (streamManager (snd (validate indexerApi marketIds s))) SubaccountPositions =
        Some \<lparr>subscription = opened s, kind = SubaccountPositions,
              scope = (case marketIds of Some (m # ms) \<Rightarrow> Some m | _ \<Rightarrow> None)\<rparr>
    \<and> (\<forall>k. k \<noteq> SubaccountPositions \<longrightarrow>
          registry (streamManager (snd (validate indexerApi marketIds s))) k =
          registry (streamManager s) k)
    \<and> opened (snd (validate indexerApi marketIds s)) = Suc (opened s)
    \<and> fetches (snd (validate indexerApi marketIds s)) =
        fetches s @ [fetchData_request marketIds s, fetchData_request marketIds s]
    \<and> isUserConnected (snd (validate indexerApi marketIds s)) = isUserConnected s
    \<and> subaccountId (snd (validate indexerApi marketIds s)) = subaccountId s
    \<and> activeMarketIds (snd (validate indexerApi marketIds s)) = activeMarketIds s"
proof -
  have scope: "firstMarketId marketIds = (case marketIds of Some (m # ms) \<Rightarrow> Some m | _ \<Rightarrow> None)"
    by (simp add: firstMarketId_def split: option.splits list.splits)
  have run: "validate indexerApi marketIds s =
     (Returned,
      s\<lparr>subaccountPositions := refetched,
        streamManager :=
          set_stream \<lparr>subscription = opened s, kind = SubaccountPositions, scope = firstMarketId marketIds\<rparr>
            SubaccountPositions (cancelIfExists SubaccountPositions (streamManager s)),
        opened := Suc (opened s),
        fetches := fetches s @ [fetchData_request marketIds s, fetchData_request marketIds s]\<rparr>)"
    using assms by (rule resync_run)
  show ?thesis
    unfolding run scope
    by (simp add: set_stream_def cancelIfExists_registry cancelIfExists_cancelled)
qed

theorem validate_resync_witness:
  "isUserConnected (example_stores [example_position ''A'' 100])
   \<and> subaccountId (example_stores [example_position ''A'' 100]) \<noteq> []
   \<and> example_indexer 200 100
        (length (fetches (example_stores [example_position ''A'' 100])))
        (fetchData_request (Some [''A'', ''B'']) (example_stores [example_position ''A'' 100])) =
      Inr (Some [example_position ''A'' 200, example_position ''B'' 200])
   \<and> [example_position ''A'' 200, example_position ''B'' 200] \<noteq> []
   \<and> subaccountPositions (example_stores [example_position ''A'' 100]) =
      Some [example_position ''A'' 100]
   \<and> \<not> verifyData [example_position ''A'' 100]
          [example_position ''A'' 200, example_position ''B'' 200]
   \<and> example_indexer 200 100
        (Suc (length (fetches (example_stores [example_position ''A'' 100]))))
        (fetchData_request (Some [''A'', ''B'']) (example_stores [example_position ''A'' 100])) =
      Inr (Some [example_position ''A'' 300, example_position ''B'' 300])
   \<and> fst (validate (example_indexer 200 100) (Some [''A'', ''B''])
            (example_stores [example_position ''A'' 100])) = Returned
   \<and> subaccountPositions
        (snd (validate (example_indexer 200 100) (Some [''A'', ''B''])
               (example_stores [example_position ''A'' 100]))) =
      Some [example_position ''A'' 300, example_position ''B'' 300]
   \<and> cancelled (streamManager
        (snd (validate (example_indexer 200 100) (Some [''A'', ''B''])
               (example_stores [example_position ''A'' 100])))) =
      [\<lparr>subscription = 0, kind = SubaccountPositions, scope = Some ''A''\<rparr>]
   \<and> registry (streamManager
        (snd (validate (example_indexer 200 100) (Some [''A'', ''B''])
               (example_stores [example_position ''A'' 100])))) SubaccountPositions =
      Some \<lparr>subscription = 1, kind = SubaccountPositions, scope = Some ''A''\<rparr>"
  using validate_resync
      [of "example_stores [example_position ''A'' 100]"
          "example_indexer 200 100" "Some [''A'', ''B'']"
          "[example_position ''A'' 200, example_position ''B'' 200]"
          "[example_position ''A'' 100]"
          "Some [example_position ''A'' 300, example_position ''B'' 300]"]
  by (simp add: example_stores_sel example_request example_indexer_def verifyData_def
      example_position_def)
     (simp add: example_stores_def)

section \<open>Properties of the balance mappings\<close>

text \<open>\<open>fetchSubaccount\<close> maps every fetched balance, in order, and keeps the id.\<close>

lemma fetchSubaccount_balances:
  "balances (fetchSubaccount tokenOf fetched i) = map (fetchSubaccount_balance tokenOf) (fetched i)
   \<and> ui_subaccountId (fetchSubaccount tokenOf fetched i) = i"
  by (simp add: fetchSubaccount_def)

text \<open>
  Whatever the record, the mapping inside \<open>fetchSubaccount\<close> gives as \<open>totalBalance\<close> what
  the transformer gives as \<open>availableBalance\<close>, and the other way round.
\<close>

lemma fetchSubaccount_balance_crossed:
  "totalBalance (fetchSubaccount_balance tokenOf balance) =
     availableBalance (grpcSubaccountBalanceToUiSubaccountBalance balance)
   \<and> availableBalance (fetchSubaccount_balance tokenOf balance) =
     totalBalance (grpcSubaccountBalanceToUiSubaccountBalance balance)"
  by (simp add: fetchSubaccount_balance_def grpcSubaccountBalanceToUiSubaccountBalance_def)

text \<open>
  C8 does not hold of the code. For a balance with a deposit of total 10 and available 7
  the transformer returns total 10 and available 7, while the mapping inside
  \<open>fetchSubaccount\<close> returns total 7 and available 10: it reads each field from the
  other one of the deposit.
\<close>

theorem fetchSubaccount_balance_differs:
  "totalBalance (grpcSubaccountBalanceToUiSubaccountBalance
       \<lparr>balance_denom = ''inj'',
        balance_deposit = Some \<lparr>deposit_totalBalance = ''10'', deposit_availableBalance = ''7''\<rparr>\<rparr>)
     = ''10''
   \<and> availableBalance (grpcSubaccountBalanceToUiSubaccountBalance
       \<lparr>balance_denom = ''inj'',
        balance_deposit = Some \<lparr>deposit_totalBalance = ''10'', deposit_availableBalance = ''7''\<rparr>\<rparr>)
     = ''7''
   \<and> totalBalance (fetchSubaccount_balance id
       \<lparr>balance_denom = ''inj'',
        balance_deposit = Some \<lparr>deposit_totalBalance = ''10'', deposit_availableBalance = ''7''\<rparr>\<rparr>)
     = ''7''
   \<and> availableBalance (fetchSubaccount_balance id
       \<lparr>balance_denom = ''inj'',
        balance_deposit = Some \<lparr>deposit_totalBalance = ''10'', deposit_availableBalance = ''7''\<rparr>\<rparr>)
     = ''10''"
  by (simp add: fetchSubaccount_balance_def grpcSubaccountBalanceToUiSubaccountBalance_def)

text \<open>
  C9. For a balance record without a deposit, the transformer and the mapping inside
  \<open>fetchSubaccount\<close> both give the string \<open>0\<close> as \<open>totalBalance\<close> and as
  \<open>availableBalance\<close>; the fields are strings in every case, never missing.
\<close>

theorem deposit_absent_gives_zero:
  "balance_deposit balance = None \<Longrightarrow>
     totalBalance (grpcSubaccountBalanceToUiSubaccountBalance balance) = ''0''
   \<and> availableBalance (grpcSubaccountBalanceToUiSubaccountBalance balance) = ''0''
   \<and> totalBalance (fetchSubaccount_balance tokenOf balance) = ''0''
   \<and> availableBalance (fetchSubaccount_balance tokenOf balance) = ''0''"
  by (simp add: fetchSubaccount_balance_def grpcSubaccountBalanceToUiSubaccountBalance_def)

theorem deposit_absent_gives_zero_witness:
  "balance_deposit \<lparr>balance_denom = ''inj'', balance_deposit = None\<rparr> = None
   \<and> grpcSubaccountBalanceToUiSubaccountBalance \<lparr>balance_denom = ''inj'', balance_deposit = None\<rparr> =
       \<lparr>denom = ''inj'', totalBalance = ''0'', availableBalance = ''0''\<rparr>
   \<and> fetchSubaccount_balance id \<lparr>balance_denom = ''inj'', balance_deposit = None\<rparr> =
       \<lparr>denom = ''inj'', totalBalance = ''0'', availableBalance = ''0'', token = ''inj''\<rparr>"
  using deposit_absent_gives_zero
      [of "\<lparr>balance_denom = ''inj'', balance_deposit = None\<rparr>" id]
  by (simp add: fetchSubaccount_balance_def grpcSubaccountBalanceToUiSubaccountBalance_def)

section \<open>Properties of toggleFavoriteMarket\<close>

lemma toggleFavoriteMarket_favorites:
  "favoriteMarkets (userState (toggleFavoriteMarket m s)) =
     (if m \<in> set (favoriteMarkets (userState s))
      then filter (\<lambda>x. x \<noteq> m) (favoriteMarkets (userState s))
      else m # favoriteMarkets (userState s))"
  by (simp add: toggleFavoriteMarket_def Let_def)

lemma toggleFavoriteMarket_frame:
  "toggleFavoriteMarket m s =
     s\<lparr>userState := (userState s)
          \<lparr>favoriteMarkets := favoriteMarkets (userState (toggleFavoriteMarket m s))\<rparr>\<rparr>"
  by (simp add: toggleFavoriteMarket_def Let_def)

lemma toggleFavoriteMarket_twice_set:
  "set (favoriteMarkets (userState (toggleFavoriteMarket m (toggleFavoriteMarket m s)))) =
     set (favoriteMarkets (userState s))"
proof (cases "m \<in> set (favoriteMarkets (userState s))")
  case True
  then show ?thesis
    by (auto simp: toggleFavoriteMarket_favorites)
next
  case False
  then have "filter (\<lambda>x. x \<noteq> m) (favoriteMarkets (userState s)) = favoriteMarkets (userState s)"
    by (auto simp: filter_id_conv)
  with False show ?thesis
    by (simp add: toggleFavoriteMarket_favorites)
qed

text \<open>
  C10. \<open>toggleFavoriteMarket m\<close> removes \<open>m\<close> (every occurrence) from \<open>favoriteMarkets\<close>
  when it is there and puts it in front otherwise; the resulting store differs from the
  old one in \<open>userState.favoriteMarkets\<close> only. Toggling the same market twice gives a
  list with the same set of elements as at the start.
\<close>

theorem toggleFavoriteMarket_toggles:
  "(m \<in> set (favoriteMarkets (userState s)) \<longrightarrow>
      favoriteMarkets (userState (toggleFavoriteMarket m s)) =
        filter (\<lambda>x. x \<noteq> m) (favoriteMarkets (userState s))
      \<and> m \<notin> set (favoriteMarkets (userState (toggleFavoriteMarket m s))))
   \<and> (m \<notin> set (favoriteMarkets (userState s)) \<longrightarrow>
      favoriteMarkets (userState (toggleFavoriteMarket m s)) = m # favoriteMarkets (userState s))
   \<and> toggleFavoriteMarket m s =
       s\<lparr>userState := (userState s)
            \<lparr>favoriteMarkets := favoriteMarkets (userState (toggleFavoriteMarket m s))\<rparr>\<rparr>
   \<and> set (favoriteMarkets (userState (toggleFavoriteMarket m (toggleFavoriteMarket m s)))) =
       set (favoriteMarkets (userState s))"
proof -
  have present: "m \<in> set (favoriteMarkets (userState s)) \<longrightarrow>
      favoriteMarkets (userState (toggleFavoriteMarket m s)) =
        filter (\<lambda>x. x \<noteq> m) (favoriteMarkets (userState s))
      \<and> m \<notin> set (favoriteMarkets (userState (toggleFavoriteMarket m s)))"
    by (simp add: toggleFavoriteMarket_favorites)
  have absent: "m \<notin> set (favoriteMarkets (userState s)) \<longrightarrow>
      favoriteMarkets (userState (toggleFavoriteMarket m s)) = m # favoriteMarkets (userState s)"
    by (simp add: toggleFavoriteMarket_favorites)
  from present absent toggleFavoriteMarket_frame [of m s] toggleFavoriteMarket_twice_set [of m s]
  show ?thesis by blast
qed

theorem toggleFavoriteMarket_toggles_witness:
  "''B'' \<in> set (favoriteMarkets (userState (example_app_store [''A'', ''B'', ''C''])))
   \<and> favoriteMarkets (userState (toggleFavoriteMarket ''B'' (example_app_store [''A'', ''B'', ''C'']))) =
       [''A'', ''C'']
   \<and> ''D'' \<notin> set (favoriteMarkets (userState (example_app_store [''A'', ''B'', ''C''])))
   \<and> favoriteMarkets (userState (toggleFavoriteMarket ''D'' (example_app_store [''A'', ''B'', ''C'']))) =
       [''D'', ''A'', ''B'', ''C'']
   \<and> toggleFavoriteMarket ''B'' (example_app_store [''A'', ''B'', ''C'']) =
       example_app_store [''A'', ''C'']
   \<and> favoriteMarkets (userState (toggleFavoriteMarket ''B''
        (toggleFavoriteMarket ''B'' (example_app_store [''A'', ''B'', ''C''])))) =
       [''B'', ''A'', ''C'']"
  using toggleFavoriteMarket_toggles [of "''B''" "example_app_store [''A'', ''B'', ''C'']"]
    toggleFavoriteMarket_toggles [of "''D''" "example_app_store [''A'', ''B'', ''C'']"]
  by (simp add: example_app_store_def toggleFavoriteMarket_def Let_def)


end
